theory Spec2Isabelle
  imports Complex_Main "HOL-Library.Product_Lexorder"
begin

unbundle bit_operations_syntax

section \<open>Outline extraction of \<open>process_pdfs.py\<close>\<close>

text \<open>
  The development embeds the functions of \<open>process_pdfs.py\<close> that derive a title and
  an outline from the text lines of a document.

  Conventions of the embedding:
  \<^item> Python floats (font sizes, coordinates, scores) are the real numbers: the arithmetic
    is exact, so rounding error, infinities and NaN are outside the model.
  \<^item> A Python \<open>str\<close> is a \<open>string\<close>, one \<open>char\<close> per code point, which covers the code
    points below 256; the character classes are Python's on that range.
  \<^item> \<open>difflib.SequenceMatcher(...).ratio()\<close> and compiled \<open>re\<close> patterns belong to the
    Python library, not to this program: the similarity ratio is a parameter \<open>ratio\<close>
    and a pattern is a record of its \<open>match\<close> and \<open>sub\<close> operations.
  \<^item> An exception that escapes a function is the \<open>Inl\<close> of its result.
\<close>

subsection \<open>Python primitives\<close>

datatype py_error = ZeroDivisionError | IndexError

definition isspace :: "char \<Rightarrow> bool" where
  \<comment> \<open>\<open>str.isspace\<close> on one character\<close>
  "isspace c = (of_char c \<in> set [9, 10, 11, 12, 13, 28, 29, 30, 31, 32, 133, 160 :: nat])"

definition isalnum :: "char \<Rightarrow> bool" where
  \<comment> \<open>\<open>str.isalnum\<close> on one character\<close>
  "isalnum c =
     (let n = (of_char c :: nat) in
        (48 \<le> n \<and> n \<le> 57) \<or> (65 \<le> n \<and> n \<le> 90) \<or> (97 \<le> n \<and> n \<le> 122) \<or>
        n \<in> set [170, 178, 179, 181, 185, 186, 188, 189, 190] \<or>
        (192 \<le> n \<and> n \<le> 255 \<and> n \<noteq> 215 \<and> n \<noteq> 247))"

definition lower_char :: "char \<Rightarrow> char" where
  "lower_char c =
     (let n = (of_char c :: nat) in
        if (65 \<le> n \<and> n \<le> 90) \<or> (192 \<le> n \<and> n \<le> 222 \<and> n \<noteq> 215)
        then char_of (n + 32) else c)"

definition lower :: "string \<Rightarrow> string" where
  \<comment> \<open>\<open>str.lower\<close>\<close>
  "lower s = map lower_char s"

definition strip :: "string \<Rightarrow> string" where
  \<comment> \<open>\<open>str.strip()\<close>: leading and trailing whitespace removed\<close>
  "strip s = rev (dropWhile isspace (rev (dropWhile isspace s)))"

fun split_from :: "string \<Rightarrow> string \<Rightarrow> string list" where
  \<comment> \<open>the first argument is the word being read\<close>
  "split_from w [] = (if w = [] then [] else [w])"
| "split_from w (c # cs) =
     (if isspace c then (if w = [] then split_from [] cs else w # split_from [] cs)
      else split_from (w @ [c]) cs)"

definition split :: "string \<Rightarrow> string list" where
  \<comment> \<open>\<open>str.split()\<close>: the maximal runs of non-whitespace characters\<close>
  "split s = split_from [] s"

fun join :: "string \<Rightarrow> string list \<Rightarrow> string" where
  \<comment> \<open>\<open>sep.join(parts)\<close>\<close>
  "join sep [] = []"
| "join sep [p] = p"
| "join sep (p # q # ps) = p @ sep @ join sep (q # ps)"

definition digit_char :: "nat \<Rightarrow> char" where
  "digit_char d = ''0123456789'' ! d"

fun digits :: "nat \<Rightarrow> string" where
  "digits n = (if n < 10 then [digit_char n] else digits (n div 10) @ [digit_char (n mod 10)])"

declare digits.simps [simp del]

definition str_int :: "int \<Rightarrow> string" where
  \<comment> \<open>\<open>str(i)\<close> of a Python int, as the f-string \<open>f"H{level}"\<close> formats it\<close>
  "str_int i = (if i < 0 then CHR ''-'' # digits (nat (- i)) else digits (nat i))"

definition py_round :: "real \<Rightarrow> int" where
  \<comment> \<open>\<open>round(x)\<close> of a float: to the nearest integer, a tie to the even one\<close>
  "py_round x =
     (let f = \<lfloor>x\<rfloor>; d = x - of_int f in
        if d < 1 / 2 then f else if 1 / 2 < d then f + 1 else if even f then f else f + 1)"

fun max_by_from :: "('a \<Rightarrow> 'k::linorder) \<Rightarrow> 'a \<Rightarrow> 'a list \<Rightarrow> 'a" where
  \<comment> \<open>\<open>max(xs, key=f)\<close> with the best so far: a later element wins only when strictly greater\<close>
  "max_by_from f best [] = best"
| "max_by_from f best (x # xs) = max_by_from f (if f best < f x then x else best) xs"

subsection \<open>Data\<close>

type_synonym bbox_t = "real \<times> real \<times> real \<times> real"

definition x0 :: "bbox_t \<Rightarrow> real" where "x0 b = fst b"
definition y0 :: "bbox_t \<Rightarrow> real" where "y0 b = fst (snd b)"
definition x1 :: "bbox_t \<Rightarrow> real" where "x1 b = fst (snd (snd b))"
definition y1 :: "bbox_t \<Rightarrow> real" where "y1 b = snd (snd (snd b))"

text \<open>A text line as \<open>extract_text_blocks\<close> produces it (the dict with the keys
  \<open>text\<close>, \<open>font_size\<close>, \<open>bold\<close>, \<open>page\<close>, \<open>bbox\<close>).\<close>

record block =
  block_text :: string
  font_size :: real
  bold :: bool
  page :: int
  bbox :: bbox_t

text \<open>An outline entry (the dict with the keys \<open>level\<close>, \<open>text\<close>, \<open>page\<close>).\<close>

record entry =
  level :: string
  entry_text :: string
  entry_page :: int

text \<open>What the parsing library hands over: the spans of a line, the lines of a block
  (an image block has no \<open>lines\<close> key), the blocks and rectangle of a page, the pages and
  the embedded outline of a document.\<close>

record span =
  span_text :: string
  span_size :: real
  span_flags :: int

record line =
  spans :: "span list"
  line_bbox :: bbox_t

datatype page_block = TextBlock "line list" | ImageBlock

record pdf_page =
  rect_width :: real
  rect_height :: real
  page_blocks :: "page_block list"

record document =
  pages :: "pdf_page list"
  toc :: "(int \<times> string \<times> int) list"

definition page_count :: "document \<Rightarrow> int" where
  "page_count d = int (length (pages d))"

definition doc_getitem :: "document \<Rightarrow> nat \<Rightarrow> py_error + pdf_page" where
  \<comment> \<open>\<open>doc[i]\<close> for an index \<open>i \<ge> 0\<close>\<close>
  "doc_getitem d i = (if i < length (pages d) then Inr (pages d ! i) else Inl IndexError)"

text \<open>A compiled pattern, by the two operations the program calls on it:
  \<open>match(s)\<close> (is there a match at the start of \<open>s\<close>) and \<open>sub('', s)\<close>.\<close>

record regex =
  rx_match :: "string \<Rightarrow> bool"
  rx_sub_empty :: "string \<Rightarrow> string"

text \<open>The language settings: the value of \<open>lang_settings.get('numbered_heading_regex')\<close>.\<close>

type_synonym lang_settings = "regex option"

subsection \<open>Config\<close>

definition TITLE_MIN_CHARS :: nat where "TITLE_MIN_CHARS = 10"
definition SIMILARITY_THRESHOLD :: real where "SIMILARITY_THRESHOLD = 85 / 100"
definition HEADING_MIN_CHARS :: nat where "HEADING_MIN_CHARS = 3"
definition W_FONT_SIZE :: real where "W_FONT_SIZE = 25"
definition W_VERTICAL_GAP :: real where "W_VERTICAL_GAP = 40"
definition W_IS_BOLD :: real where "W_IS_BOLD = 15"
definition W_TEXT_LENGTH :: real where "W_TEXT_LENGTH = 20"

subsection \<open>\<open>format_embedded_toc\<close>\<close>

definition format_embedded_toc :: "(int \<times> string \<times> int) list \<Rightarrow> entry list" where
  "format_embedded_toc t =
     map (\<lambda>(lvl, title, pg).
            \<lparr>level = ''H'' @ str_int lvl, entry_text = strip title, entry_page = pg\<rparr>) t"

subsection \<open>\<open>identify_repeated_elements\<close>\<close>

type_synonym key = "string \<times> int"

definition block_key :: "block \<Rightarrow> key" where
  \<comment> \<open>\<open>(b['text'].strip(), round(b['bbox'][1] / 10))\<close>\<close>
  "block_key b = (strip (block_text b), py_round (y0 (bbox b) / 10))"

text \<open>The dict \<open>text_positions\<close> is an association list in insertion order; \<open>tp_add\<close> is
  the loop body: a new key gets an empty page set, then the page is added.\<close>

fun tp_add :: "key \<Rightarrow> int \<Rightarrow> (key \<times> int set) list \<Rightarrow> (key \<times> int set) list" where
  "tp_add k p [] = [(k, {p})]"
| "tp_add k p ((k', ps) # rest) =
     (if k = k' then (k', insert p ps) # rest else (k', ps) # tp_add k p rest)"

fun text_positions :: "block list \<Rightarrow> (key \<times> int set) list \<Rightarrow> (key \<times> int set) list" where
  "text_positions [] tp = tp"
| "text_positions (b # bs) tp = text_positions bs (tp_add (block_key b) (page b) tp)"

definition identify_repeated_elements_min :: "block list \<Rightarrow> nat \<Rightarrow> key set" where
  "identify_repeated_elements_min blocks min_pages =
     set (map fst (filter (\<lambda>(k, ps). min_pages \<le> card ps) (text_positions blocks [])))"

definition identify_repeated_elements :: "block list \<Rightarrow> key set" where
  \<comment> \<open>the call with the default \<open>min_pages = 3\<close>\<close>
  "identify_repeated_elements blocks = identify_repeated_elements_min blocks 3"

subsection \<open>\<open>extract_text_blocks\<close>\<close>

definition line_block :: "int \<Rightarrow> line \<Rightarrow> block list" where
  \<comment> \<open>the body of the loop over the lines: no or one block\<close>
  "line_block page_num l =
     (case spans l of
        [] \<Rightarrow> []
      | s # ss \<Rightarrow>
          (let main_span = max_by_from span_size s ss;
               t = strip (join '' '' (map span_text (spans l)))
           in if t = [] then []
              else [\<lparr>block_text = t, font_size = span_size main_span,
                     bold = (span_flags main_span AND 2 \<noteq> 0),
                     page = page_num, bbox = line_bbox l\<rparr>]))"

fun page_block_lines :: "page_block \<Rightarrow> line list" where
  "page_block_lines (TextBlock ls) = ls"
| "page_block_lines ImageBlock = []"

fun pages_blocks :: "int \<Rightarrow> pdf_page list \<Rightarrow> block list" where
  \<comment> \<open>\<open>enumerate(doc, start=1)\<close> with the number of the next page\<close>
  "pages_blocks page_num [] = []"
| "pages_blocks page_num (p # ps) =
     concat (map (\<lambda>pb. concat (map (line_block page_num) (page_block_lines pb))) (page_blocks p))
     @ pages_blocks (page_num + 1) ps"

definition extract_text_blocks :: "document \<Rightarrow> block list" where
  \<comment> \<open>\<open>list.sort\<close> is stable, as \<open>sort_key\<close> is\<close>
  "extract_text_blocks d = sort_key (\<lambda>b. (page b, y0 (bbox b))) (pages_blocks 1 (pages d))"

subsection \<open>\<open>normalize_text\<close>\<close>

definition normalize_text :: "string \<Rightarrow> string" where
  "normalize_text t =
     (if t = [] then []
      else map (\<lambda>i. t ! i)
             (filter (\<lambda>i. i = 0 \<or> t ! i \<noteq> t ! (i - 1) \<or> \<not> isalnum (t ! i)) [0..<length t]))"

subsection \<open>\<open>detect_title\<close>\<close>

definition title_score :: "real \<Rightarrow> real \<Rightarrow> block \<Rightarrow> py_error + real" where
  \<comment> \<open>the score of one candidate; the float division by \<open>page_width / 2\<close> raises at zero\<close>
  "title_score page_width page_height b =
     (let score = font_size b;
          score = (if y0 (bbox b) < page_height * (4 / 10) then score * (15 / 10) else score);
          center_pos = (x0 (bbox b) + x1 (bbox b)) / 2;
          center_diff = \<bar>center_pos - page_width / 2\<bar>
      in if page_width / 2 = 0 then Inl ZeroDivisionError
         else Inr (score * max (1 / 10) (1 - center_diff / (page_width / 2))))"

fun title_candidates ::
  "real \<Rightarrow> real \<Rightarrow> block list \<Rightarrow> (real \<times> string) list \<Rightarrow> py_error + (real \<times> string) list" where
  "title_candidates w h [] candidates = Inr candidates"
| "title_candidates w h (b # bs) candidates =
     (if page b \<noteq> 1 \<or> length (block_text b) < TITLE_MIN_CHARS
      then title_candidates w h bs candidates
      else (case title_score w h b of
              Inl e \<Rightarrow> Inl e
            | Inr score \<Rightarrow> title_candidates w h bs (candidates @ [(score, block_text b)])))"

definition detect_title :: "document \<Rightarrow> block list \<Rightarrow> py_error + string" where
  "detect_title d blocks =
     (if \<not> page_count d > 0 then Inr []
      else (case doc_getitem d 0 of
              Inl e \<Rightarrow> Inl e
            | Inr p \<Rightarrow>
                (case title_candidates (rect_width p) (rect_height p) blocks [] of
                   Inl e \<Rightarrow> Inl e
                 | Inr [] \<Rightarrow> Inr []
                 | Inr (c # cs) \<Rightarrow> Inr (normalize_text (snd (max_by_from fst c cs))))))"

subsection \<open>\<open>is_similar\<close>\<close>

definition is_similar :: "(string \<Rightarrow> string \<Rightarrow> real) \<Rightarrow> string \<Rightarrow> string \<Rightarrow> bool" where
  "is_similar ratio a b = (SIMILARITY_THRESHOLD \<le> ratio (lower a) (lower b))"

subsection \<open>\<open>cluster_font_sizes\<close>\<close>

text \<open>A \<open>Counter\<close> is an association list in insertion order.\<close>

fun counter_add :: "int \<Rightarrow> (int \<times> nat) list \<Rightarrow> (int \<times> nat) list" where
  "counter_add k [] = [(k, 1)]"
| "counter_add k ((k', n) # rest) =
     (if k = k' then (k', n + 1) # rest else (k', n) # counter_add k rest)"

fun counter :: "int list \<Rightarrow> (int \<times> nat) list \<Rightarrow> (int \<times> nat) list" where
  "counter [] c = c"
| "counter (k # ks) c = counter ks (counter_add k c)"

definition cluster_font_sizes :: "block list \<Rightarrow> int \<times> int" where
  "cluster_font_sizes blocks =
     (let font_sizes = filter (\<lambda>s. s > 0) (map font_size blocks) in
      case counter (map py_round font_sizes) [] of
        [] \<Rightarrow> (0, 0)
      | kv # kvs \<Rightarrow>
          (let body_size = fst (max_by_from snd kv kvs);
               heading_sizes = filter (\<lambda>s. s > body_size) (map fst (kv # kvs));
               primary_heading_size =
                 (case heading_sizes of [] \<Rightarrow> body_size | s # ss \<Rightarrow> fold max ss s)
           in (body_size, primary_heading_size)))"

subsection \<open>\<open>classify_headings\<close>, phase 1: scoring\<close>

record candidate =
  cand_block :: block
  cand_score :: real

text \<open>The variables the loop carries from one line to the next.\<close>

record scorer_state =
  last_y1 :: real
  last_page :: int
  scored_candidates :: "candidate list"

definition basic_filter :: "(string \<Rightarrow> string \<Rightarrow> real) \<Rightarrow> int \<Rightarrow> string \<Rightarrow> block \<Rightarrow> bool" where
  \<comment> \<open>\<open>size <= body_size or not text or is_similar(text, title)\<close>\<close>
  "basic_filter ratio body_size title b =
     (font_size b \<le> of_int body_size \<or> block_text b = [] \<or> is_similar ratio (block_text b) title)"

definition vertical_gap :: "int \<Rightarrow> scorer_state \<Rightarrow> block \<Rightarrow> real" where
  \<comment> \<open>\<open>bbox[1] - last_y1 if b['page'] == last_page else body_size * 2\<close>\<close>
  "vertical_gap body_size st b =
     (if page b = last_page st then y0 (bbox b) - last_y1 st else of_int body_size * 2)"

definition line_score :: "int \<Rightarrow> int \<Rightarrow> scorer_state \<Rightarrow> block \<Rightarrow> real" where
  \<comment> \<open>the score of a line that passed the filters; \<open>body_size\<close> is not zero here\<close>
  "line_score body_size primary_heading_size st b =
     (let score = 0;
          score = (if primary_heading_size > body_size
                   then score + (font_size b - of_int body_size)
                                / of_int (primary_heading_size - body_size) * W_FONT_SIZE
                   else score);
          gap_factor = min 2 (vertical_gap body_size st b / of_int body_size);
          score = score + gap_factor * W_VERTICAL_GAP;
          score = (if bold b then score + W_IS_BOLD else score);
          score = (if length (split (block_text b)) > 4 \<or> CHR '':'' \<in> set (block_text b)
                   then score + W_TEXT_LENGTH else score)
      in score)"

definition score_step ::
  "(string \<Rightarrow> string \<Rightarrow> real) \<Rightarrow> key set \<Rightarrow> int \<Rightarrow> int \<Rightarrow> string \<Rightarrow> nat \<Rightarrow> block
     \<Rightarrow> scorer_state \<Rightarrow> scorer_state" where
  \<comment> \<open>the body of the loop at index \<open>i\<close>\<close>
  "score_step ratio repeated_elements body_size primary_heading_size title i b st =
     (if basic_filter ratio body_size title b
      then st\<lparr>last_y1 := (if i > 0 then y1 (bbox b) else 0), last_page := page b\<rparr>
      else if block_key b \<in> repeated_elements
      then st\<lparr>last_y1 := y1 (bbox b), last_page := page b\<rparr>
      else st\<lparr>scored_candidates := scored_candidates st @
                 [\<lparr>cand_block = b,
                   cand_score = line_score body_size primary_heading_size st b\<rparr>],
               last_y1 := y1 (bbox b), last_page := page b\<rparr>)"

fun score_loop ::
  "(string \<Rightarrow> string \<Rightarrow> real) \<Rightarrow> key set \<Rightarrow> int \<Rightarrow> int \<Rightarrow> string \<Rightarrow> nat \<Rightarrow> block list
     \<Rightarrow> scorer_state \<Rightarrow> scorer_state" where
  "score_loop ratio rep body_size phs title i [] st = st"
| "score_loop ratio rep body_size phs title i (b # bs) st =
     score_loop ratio rep body_size phs title (i + 1) bs
       (score_step ratio rep body_size phs title i b st)"

definition initial_state :: scorer_state where
  "initial_state = \<lparr>last_y1 = 0, last_page = 0, scored_candidates = []\<rparr>"

subsection \<open>\<open>classify_headings\<close>, phase 2: thresholds and assembly\<close>

definition np_mean :: "real list \<Rightarrow> real" where
  "np_mean xs = sum_list xs / real (length xs)"

definition np_std :: "real list \<Rightarrow> real" where
  \<comment> \<open>\<open>np.std\<close> with its default \<open>ddof = 0\<close>\<close>
  "np_std xs = sqrt (np_mean (map (\<lambda>x. \<bar>x - np_mean xs\<bar> ^ 2) xs))"

definition h1_threshold :: "real list \<Rightarrow> real" where
  "h1_threshold scores =
     (if length scores < 3 then np_mean scores else np_mean scores + np_std scores * (8 / 10))"

definition h2_threshold :: "real list \<Rightarrow> real" where
  "h2_threshold scores = np_mean scores * (9 / 10)"

definition level_of :: "real \<Rightarrow> real \<Rightarrow> real \<Rightarrow> string" where
  "level_of h1 h2 score = (if score \<ge> h1 then ''H1'' else if score \<ge> h2 then ''H2'' else ''H3'')"

definition final_text :: "lang_settings \<Rightarrow> string \<Rightarrow> string" where
  \<comment> \<open>the text of a candidate after normalisation and the stripping of its numbering\<close>
  "final_text numbered_heading_regex t =
     (let normalized_text = normalize_text t in
      case numbered_heading_regex of
        None \<Rightarrow> normalized_text
      | Some r \<Rightarrow> if rx_match r normalized_text then strip (rx_sub_empty r normalized_text)
                  else normalized_text)"

fun assemble :: "real \<Rightarrow> real \<Rightarrow> lang_settings \<Rightarrow> candidate list \<Rightarrow> entry list \<Rightarrow> entry list" where
  \<comment> \<open>the loop over \<open>scored_candidates\<close>, with the outline built so far\<close>
  "assemble h1 h2 rx [] outline = outline"
| "assemble h1 h2 rx (c # cs) outline =
     (let b = cand_block c;
          lvl = level_of h1 h2 (cand_score c);
          normalized_text = final_text rx (block_text b)
      in assemble h1 h2 rx cs
           (if length normalized_text \<ge> HEADING_MIN_CHARS
            then outline @ [\<lparr>level = lvl, entry_text = normalized_text, entry_page = page b\<rparr>]
            else outline))"

definition classify_candidates :: "lang_settings \<Rightarrow> candidate list \<Rightarrow> entry list" where
  \<comment> \<open>lines 133 to 159\<close>
  "classify_candidates rx cands =
     (if cands = [] then []
      else (let scores = map cand_score cands
            in assemble (h1_threshold scores) (h2_threshold scores) rx cands []))"

definition score_candidates ::
  "(string \<Rightarrow> string \<Rightarrow> real) \<Rightarrow> int \<Rightarrow> int \<Rightarrow> block list \<Rightarrow> string \<Rightarrow> candidate list" where
  \<comment> \<open>lines 99 to 131\<close>
  "score_candidates ratio body_size primary_heading_size blocks title =
     scored_candidates
       (score_loop ratio (identify_repeated_elements blocks) body_size primary_heading_size
          title 0 blocks initial_state)"

definition classify_headings ::
  "(string \<Rightarrow> string \<Rightarrow> real) \<Rightarrow> block list \<Rightarrow> string \<Rightarrow> lang_settings \<Rightarrow> entry list" where
  "classify_headings ratio blocks title rx =
     (case cluster_font_sizes blocks of
        (body_size, primary_heading_size) \<Rightarrow>
          if body_size = 0 \<or> primary_heading_size \<le> body_size then []
          else classify_candidates rx
                 (score_candidates ratio body_size primary_heading_size blocks title))"

subsection \<open>\<open>extract_outline\<close>\<close>

text \<open>The lines the function prints, and the dict it returns.\<close>

datatype message =
  Failed_to_open | Found_embedded_outline | No_embedded_outline | No_text_blocks

record artifact =
  title :: string
  outline :: "entry list"

definition extract_outline ::
  "(string \<Rightarrow> string \<Rightarrow> real) \<Rightarrow> document option \<Rightarrow> lang_settings
     \<Rightarrow> py_error + (message list \<times> artifact option)" where
  \<comment> \<open>the second argument is what \<open>fitz.open(path)\<close> gave: \<open>None\<close> when it raised\<close>
  "extract_outline ratio opened rx =
     (case opened of
        None \<Rightarrow> Inr ([Failed_to_open], None)
      | Some doc \<Rightarrow>
          (let blocks = extract_text_blocks doc in
           case detect_title doc blocks of
             Inl e \<Rightarrow> Inl e
           | Inr t \<Rightarrow>
               if toc doc \<noteq> []
               then Inr ([Found_embedded_outline],
                         Some \<lparr>title = t, outline = format_embedded_toc (toc doc)\<rparr>)
               else if blocks = [] then Inr ([No_embedded_outline, No_text_blocks], None)
               else Inr ([No_embedded_outline],
                         Some \<lparr>title = t, outline = classify_headings ratio blocks t rx\<rparr>)))"

subsection \<open>The reading of the specification\<close>

text \<open>The reformatting of an embedded outline as the specification words it: the level
  becomes \<open>"H"\<close> followed by its number, the title text and the page are taken over.\<close>

definition verbatim_reformatting :: "(int \<times> string \<times> int) list \<Rightarrow> entry list" where
  "verbatim_reformatting t =
     map (\<lambda>(lvl, ttl, pg). \<lparr>level = ''H'' @ str_int lvl, entry_text = ttl, entry_page = pg\<rparr>) t"






subsection \<open>Auxiliary functions of the proofs\<close>

text \<open>\<open>normalize_text\<close> on the characters after the first, by recursion: the first argument
  is the character before.\<close>

fun collapse :: "char \<Rightarrow> string \<Rightarrow> string" where
  "collapse p [] = []"
| "collapse p (c # cs) = (if c \<noteq> p \<or> \<not> isalnum c then c # collapse c cs else collapse c cs)"

text \<open>The entry that the assembly loop appends for a candidate it keeps.\<close>

definition entry_of :: "real \<Rightarrow> real \<Rightarrow> lang_settings \<Rightarrow> candidate \<Rightarrow> entry" where
  "entry_of h1 h2 rx c =
     \<lparr>level = level_of h1 h2 (cand_score c),
      entry_text = final_text rx (block_text (cand_block c)),
      entry_page = page (cand_block c)\<rparr>"

definition long_enough :: "lang_settings \<Rightarrow> candidate \<Rightarrow> bool" where
  "long_enough rx c = (HEADING_MIN_CHARS \<le> length (final_text rx (block_text (cand_block c))))"


text \<open>Lines in reading order that do not overlap: a line on the page of the line before
  starts at or below the bottom edge of that line. \<open>ahead\<close> says the same of the
  accumulator and the next line.\<close>

fun no_overlap :: "block list \<Rightarrow> bool" where
  "no_overlap (a # b # bs) =
     ((page b = page a \<longrightarrow> y1 (bbox a) \<le> y0 (bbox b)) \<and> no_overlap (b # bs))"
| "no_overlap bs = True"

definition ahead :: "scorer_state \<Rightarrow> block list \<Rightarrow> bool" where
  "ahead st bs = (case bs of [] \<Rightarrow> True | b # _ \<Rightarrow> page b = last_page st \<longrightarrow> last_y1 st \<le> y0 (bbox b))"

subsection \<open>Concrete inputs\<close>

text \<open>A similarity ratio for the concrete inputs: it is \<open>SequenceMatcher\<close>'s on two equal
  strings (1) and on a non-empty and an empty string (no matching block: 0), the only
  calls that the inputs below make.\<close>

definition ratio_exact :: "string \<Rightarrow> string \<Rightarrow> real" where
  "ratio_exact a b = (if a = b then 1 else 0)"

text \<open>A one-page document with an image and a single line of two spans, all of size 12.\<close>

definition doc_plain :: document where
  "doc_plain =
     \<lparr>pages = [\<lparr>rect_width = 600, rect_height = 800,
                page_blocks = [ImageBlock, TextBlock
                  [\<lparr>spans = [\<lparr>span_text = ''Yearly report'', span_size = 12, span_flags = 0\<rparr>,
                             \<lparr>span_text = ''2024 '', span_size = 12, span_flags = 2\<rparr>],
                    line_bbox = (100, 50, 500, 64)\<rparr>]]\<rparr>],
      toc = []\<rparr>"

definition blocks_plain :: "block list" where
  "blocks_plain =
     [\<lparr>block_text = ''Yearly report 2024'', font_size = 12, bold = False, page = 1,
       bbox = (100, 50, 500, 64)\<rparr>]"

text \<open>The same page with an embedded outline of one entry, whose title ends in a space.\<close>

definition doc_embedded :: document where
  "doc_embedded = doc_plain\<lparr>toc := [(1, ''Introduction '', 1)]\<rparr>"

text \<open>A document without pages.\<close>

definition doc_no_pages :: document where
  "doc_no_pages = \<lparr>pages = [], toc = []\<rparr>"

text \<open>The numbered-heading pattern of the specification's example (at the start of the
  text: one or more digits, any number of groups of a dot and digits, then whitespace):
  it matches a text that starts with a digit, and the substitution removes the digits, the
  groups of a dot and digits, and the whitespace that follow.\<close>

definition isdigit :: "char \<Rightarrow> bool" where
  "isdigit c = (48 \<le> (of_char c :: nat) \<and> (of_char c :: nat) \<le> 57)"

function strip_groups :: "string \<Rightarrow> string" where
  "strip_groups s =
     (case s of
        c # d # cs \<Rightarrow> if c = CHR ''.'' \<and> isdigit d then strip_groups (dropWhile isdigit cs) else s
      | _ \<Rightarrow> s)"
  by pat_completeness auto
termination
  by (relation "measure length") (auto simp: le_imp_less_Suc length_dropWhile_le less_SucI)

declare strip_groups.simps [simp del]

definition numbered_heading :: regex where
  "numbered_heading =
     \<lparr>rx_match = (\<lambda>s. s \<noteq> [] \<and> isdigit (hd s)),
      rx_sub_empty = (\<lambda>s. if s \<noteq> [] \<and> isdigit (hd s)
                           then dropWhile isspace (strip_groups (dropWhile isdigit s)) else s)\<rparr>"

text \<open>Candidates with given texts, pages and scores.\<close>

definition scored :: "string \<Rightarrow> int \<Rightarrow> real \<Rightarrow> candidate" where
  "scored t pg s =
     \<lparr>cand_block = \<lparr>block_text = t, font_size = 14, bold = False, page = pg,
                     bbox = (72, 100, 300, 116)\<rparr>,
      cand_score = s\<rparr>"


definition cands_short :: "candidate list" where
  "cands_short = [scored ''12 AB'' 1 50, scored ''2.1 Introduction'' 2 30]"

text \<open>The page of \<open>doc_plain\<close> with an embedded outline that has an entry of level 4.\<close>

definition doc_deep :: document where
  "doc_deep = doc_plain\<lparr>toc := [(1, ''Part'', 1), (4, ''Detail'', 9)]\<rparr>"

text \<open>Text lines at the left margin.\<close>

definition text_line :: "string \<Rightarrow> real \<Rightarrow> bool \<Rightarrow> int \<Rightarrow> real \<Rightarrow> real \<Rightarrow> block" where
  "text_line t s bd pg ytop ybot =
     \<lparr>block_text = t, font_size = s, bold = bd, page = pg, bbox = (72, ytop, 400, ybot)\<rparr>"

text \<open>A report of three pages: the header \<open>ACME Corp\<close> at the same place on each page,
  two headings, and body text of size 10.\<close>

definition blocks_report :: "block list" where
  "blocks_report =
     [text_line ''ACME Corp'' 14 False 1 20 34,
      text_line ''Overview'' 20 True 1 60 80,
      text_line ''text one'' 10 False 1 100 110,
      text_line ''ACME Corp'' 14 False 2 20 34,
      text_line ''Methods: data'' 16 False 2 60 76,
      text_line ''text two'' 10 False 2 100 110,
      text_line ''ACME Corp'' 14 False 3 20 34,
      text_line ''text three'' 10 False 3 60 70,
      text_line ''text four'' 10 False 3 80 90]"

text \<open>A page on which the second line starts above the bottom edge of the first. (On
  this page and the next one every text is shorter than 10 characters, so that no line is
  a title candidate.)\<close>

definition blocks_overlap :: "block list" where
  "blocks_overlap =
     [text_line ''Heading A'' 40 False 1 100 150,
      text_line ''side note'' 11 False 1 101 113,
      text_line ''body one'' 10 False 1 200 212,
      text_line ''body two'' 10 False 1 220 232]"

text \<open>A page whose first line is body text, followed closely by a heading.\<close>

definition blocks_first_excluded :: "block list" where
  "blocks_first_excluded =
     [text_line ''body text'' 10 False 1 0 12,
      text_line ''Heading'' 20 False 1 15 35,
      text_line ''more text'' 10 False 1 40 52]"

section \<open>Properties\<close>

subsection \<open>Evaluation of the concrete inputs\<close>

lemma extract_text_blocks_doc_plain: "extract_text_blocks doc_plain = blocks_plain"
  by (simp add: extract_text_blocks_def doc_plain_def blocks_plain_def line_block_def strip_def
      isspace_def)

lemma extract_text_blocks_doc_embedded: "extract_text_blocks doc_embedded = blocks_plain"
  by (simp add: extract_text_blocks_def doc_embedded_def doc_plain_def blocks_plain_def
      line_block_def strip_def isspace_def)

lemma cluster_font_sizes_blocks_plain: "cluster_font_sizes blocks_plain = (12, 12)"
  by (simp add: cluster_font_sizes_def blocks_plain_def py_round_def)

subsection \<open>\<open>normalize_text\<close> by recursion\<close>

lemma normalize_indices:
  "map ((!) (pre @ p # cs))
     (filter (\<lambda>i. i = 0 \<or> (pre @ p # cs) ! i \<noteq> (pre @ p # cs) ! (i - 1)
                  \<or> \<not> isalnum ((pre @ p # cs) ! i))
        [Suc (length pre) ..< Suc (length pre) + length cs])
   = collapse p cs"
proof (induction cs arbitrary: pre p)
  case Nil
  then show ?case by simp
next
  case (Cons c cs)
  define t where "t = pre @ p # c # cs"
  define keep where "keep = (\<lambda>i. i = 0 \<or> t ! i \<noteq> t ! (i - 1) \<or> \<not> isalnum (t ! i))"
  define rest where
    "rest = [Suc (length (pre @ [p])) ..< Suc (length (pre @ [p])) + length cs]"
  have range: "[Suc (length pre) ..< Suc (length pre) + length (c # cs)] = Suc (length pre) # rest"
    unfolding rest_def
    using upt_conv_Cons [of "Suc (length pre)" "Suc (length pre) + length (c # cs)"]
    by (simp del: upt_Suc)
  have here: "t ! Suc (length pre) = c"
    by (simp add: t_def nth_append)
  have prev: "t ! length pre = p"
    by (simp add: t_def nth_append)
  have keep_here: "keep (Suc (length pre)) \<longleftrightarrow> c \<noteq> p \<or> \<not> isalnum c"
    by (simp add: keep_def here prev)
  have same: "t = (pre @ [p]) @ c # cs"
    by (simp add: t_def)
  have ih: "map ((!) t) (filter keep rest) = collapse c cs"
    unfolding same keep_def rest_def by (rule Cons.IH)
  have "map ((!) t) (filter keep (Suc (length pre) # rest)) = collapse p (c # cs)"
    using ih keep_here here by simp
  then show ?case
    unfolding range [symmetric] t_def keep_def .
qed

lemma normalize_text_Nil: "normalize_text [] = []"
  by (simp add: normalize_text_def)

lemma normalize_text_Cons: "normalize_text (c # cs) = c # collapse c cs"
proof -
  have "[0..<length (c # cs)]
      = 0 # [Suc (length ([]::string)) ..< Suc (length ([]::string)) + length cs]"
    using upt_conv_Cons [of 0 "length (c # cs)"] by (simp del: upt_Suc)
  then show ?thesis
    using normalize_indices [of "[]" c cs] by (simp add: normalize_text_def)
qed

lemma collapse_idem: "collapse p (collapse p cs) = collapse p cs"
  by (induction cs arbitrary: p) auto

lemma detect_title_doc_plain: "detect_title doc_plain blocks_plain = Inr ''Yearly report 2024''"
  by (simp add: detect_title_def page_count_def doc_getitem_def doc_plain_def blocks_plain_def
      TITLE_MIN_CHARS_def title_score_def normalize_text_Cons isalnum_def x0_def x1_def y0_def)

lemma detect_title_doc_embedded:
  "detect_title doc_embedded blocks_plain = Inr ''Yearly report 2024''"
  by (simp add: detect_title_def page_count_def doc_getitem_def doc_embedded_def doc_plain_def
      blocks_plain_def TITLE_MIN_CHARS_def title_score_def normalize_text_Cons isalnum_def
      x0_def x1_def y0_def)

subsection \<open>C1: an embedded outline bypasses the heuristics\<close>

text \<open>
  C1, as stated, fails. For the document \<open>doc_embedded\<close>, whose embedded outline is the
  single triple \<open>(1, "Introduction ", 1)\<close>, the outline produced has the text
  \<open>"Introduction"\<close>, while the reformatting that takes the title text over has
  \<open>"Introduction "\<close>: \<open>format_embedded_toc\<close> strips the title.
\<close>

theorem embedded_outline_verbatim_counterexample:
  "toc doc_embedded \<noteq> [] \<and>
   extract_outline ratio_exact (Some doc_embedded) None =
     Inr ([Found_embedded_outline],
          Some \<lparr>title = ''Yearly report 2024'',
                outline = [\<lparr>level = ''H1'', entry_text = ''Introduction'', entry_page = 1\<rparr>]\<rparr>) \<and>
   verbatim_reformatting (toc doc_embedded) =
     [\<lparr>level = ''H1'', entry_text = ''Introduction '', entry_page = 1\<rparr>] \<and>
   [\<lparr>level = ''H1'', entry_text = ''Introduction'', entry_page = 1\<rparr>] \<noteq>
     verbatim_reformatting (toc doc_embedded)"
proof -
  have "toc doc_embedded = [(1, ''Introduction '', 1)]"
    by (simp add: doc_embedded_def)
  moreover have "str_int 1 = ''1''"
    by (simp add: str_int_def digits.simps digit_char_def)
  moreover have "strip ''Introduction '' = ''Introduction''"
    by (simp add: strip_def isspace_def)
  ultimately show ?thesis
    using extract_text_blocks_doc_embedded detect_title_doc_embedded
    by (simp add: extract_outline_def format_embedded_toc_def verbatim_reformatting_def)
qed

text \<open>
  C1, amended: for every document that carries a non-empty embedded outline, the outline
  produced is the reformatting of the embedded outline in which each triple
  (level, title, page) becomes the entry with level \<open>"H"\<close> followed by the level, the title
  with its leading and trailing whitespace removed, and the page. The result depends on
  neither the similarity ratio nor the language settings, on the text lines only through
  the title, and the only line printed is the one of the embedded branch: the heuristic
  branch is not entered. (When title detection raises, nothing is produced.)
\<close>

theorem embedded_outline_bypass:
  assumes "toc d \<noteq> []"
  shows "extract_outline ratio (Some d) rx =
           (case detect_title d (extract_text_blocks d) of
              Inl e \<Rightarrow> Inl e
            | Inr t \<Rightarrow>
                Inr ([Found_embedded_outline],
                     Some \<lparr>title = t,
                           outline = map (\<lambda>(lvl, ttl, pg).
                                            \<lparr>level = ''H'' @ str_int lvl, entry_text = strip ttl,
                                             entry_page = pg\<rparr>) (toc d)\<rparr>))"
  using assms
  by (simp add: extract_outline_def format_embedded_toc_def Let_def split: sum.splits)

theorem embedded_outline_bypass_witness:
  "toc doc_embedded \<noteq> [] \<and>
   extract_outline ratio_exact (Some doc_embedded) None =
     Inr ([Found_embedded_outline],
          Some \<lparr>title = ''Yearly report 2024'',
                outline = [\<lparr>level = ''H1'', entry_text = ''Introduction'', entry_page = 1\<rparr>]\<rparr>)"
proof -
  have nonempty: "toc doc_embedded \<noteq> []"
    by (simp add: doc_embedded_def)
  have "toc doc_embedded = [(1, ''Introduction '', 1)]"
    by (simp add: doc_embedded_def)
  moreover have "str_int 1 = ''1''"
    by (simp add: str_int_def digits.simps digit_char_def)
  moreover have "strip ''Introduction '' = ''Introduction''"
    by (simp add: strip_def isspace_def)
  ultimately show ?thesis
    using embedded_outline_bypass [OF nonempty, of ratio_exact None]
      extract_text_blocks_doc_embedded detect_title_doc_embedded
    by simp
qed

subsection \<open>C2: degenerate typography\<close>

text \<open>
  C2: for every line set on which \<open>cluster_font_sizes\<close> gives \<open>body_size = 0\<close> or
  \<open>primary_heading_size \<le> body_size\<close>, \<open>classify_headings\<close> returns the empty outline,
  whatever the title, the similarity ratio and the language settings; and for a document
  without embedded outline whose lines these are, the artifact carries the title that
  \<open>detect_title\<close> computes, with the empty outline.
\<close>

theorem degenerate_typography_empty_outline:
  assumes "cluster_font_sizes blocks = (body_size, primary_heading_size)"
    and "body_size = 0 \<or> primary_heading_size \<le> body_size"
  shows "classify_headings ratio blocks ttl rx = [] \<and>
         (toc d = [] \<and> extract_text_blocks d = blocks \<and> blocks \<noteq> [] \<longrightarrow>
            extract_outline ratio (Some d) rx =
              (case detect_title d blocks of
                 Inl e \<Rightarrow> Inl e
               | Inr t \<Rightarrow> Inr ([No_embedded_outline], Some \<lparr>title = t, outline = []\<rparr>)))"
proof -
  have empty: "classify_headings ratio blocks t rx = []" for t
    using assms by (auto simp: classify_headings_def)
  show ?thesis
    using empty by (auto simp: extract_outline_def Let_def split: sum.splits)
qed

theorem degenerate_typography_empty_outline_witness:
  "cluster_font_sizes blocks_plain = (12, 12) \<and>
   toc doc_plain = [] \<and> extract_text_blocks doc_plain = blocks_plain \<and> blocks_plain \<noteq> [] \<and>
   classify_headings ratio_exact blocks_plain [] None = [] \<and>
   extract_outline ratio_exact (Some doc_plain) None =
     Inr ([No_embedded_outline], Some \<lparr>title = ''Yearly report 2024'', outline = []\<rparr>)"
proof -
  have degenerate: "(12::int) = 0 \<or> (12::int) \<le> 12"
    by simp
  have "toc doc_plain = []"
    by (simp add: doc_plain_def)
  moreover have "blocks_plain \<noteq> []"
    by (simp add: blocks_plain_def)
  ultimately show ?thesis
    using degenerate_typography_empty_outline
        [OF cluster_font_sizes_blocks_plain degenerate, of ratio_exact "[]" None doc_plain]
      extract_text_blocks_doc_plain detect_title_doc_plain cluster_font_sizes_blocks_plain
    by simp
qed

subsection \<open>C9: normalisation is idempotent\<close>

text \<open>
  C9: for every string \<open>s\<close>, \<open>normalize_text (normalize_text s) = normalize_text s\<close>.
\<close>

theorem normalize_text_idempotent: "normalize_text (normalize_text s) = normalize_text s"
proof (cases s)
  case Nil
  then show ?thesis by (simp add: normalize_text_Nil)
next
  case (Cons c cs)
  then show ?thesis by (simp add: normalize_text_Cons collapse_idem)
qed

theorem normalize_text_idempotent_witness:
  "normalize_text ''Boook  11!!'' = ''Bok  1!!'' \<and>
   normalize_text (normalize_text ''Boook  11!!'') = normalize_text ''Boook  11!!''"
  using normalize_text_idempotent [of "''Boook  11!!''"]
  by (simp add: normalize_text_Cons isalnum_def)

subsection \<open>C10: a document without pages has the empty title\<close>

text \<open>
  C10: for every document with page count 0 and every list of text lines,
  \<open>detect_title\<close> returns the empty string. It does so without reading the first page:
  \<open>doc[0]\<close> would raise on such a document, and no exception is the result.
\<close>

theorem detect_title_no_pages:
  "page_count d = 0 \<Longrightarrow> detect_title d blocks = Inr [] \<and> doc_getitem d 0 = Inl IndexError"
  by (simp add: detect_title_def page_count_def doc_getitem_def)

theorem detect_title_no_pages_witness:
  "page_count doc_no_pages = 0 \<and> detect_title doc_no_pages blocks_plain = Inr [] \<and>
   doc_getitem doc_no_pages 0 = Inl IndexError"
proof -
  have none: "page_count doc_no_pages = 0"
    by (simp add: page_count_def doc_no_pages_def)
  show ?thesis
    using none detect_title_no_pages [OF none, of blocks_plain] by simp
qed

subsection \<open>The assembly loop as a filter and a map\<close>

lemma assemble_eq:
  "assemble h1 h2 rx cs acc = acc @ map (entry_of h1 h2 rx) (filter (long_enough rx) cs)"
  by (induction cs arbitrary: acc) (simp_all add: entry_of_def long_enough_def Let_def)

lemma classify_candidates_eq:
  "classify_candidates rx cands =
     map (entry_of (h1_threshold (map cand_score cands)) (h2_threshold (map cand_score cands)) rx)
       (filter (long_enough rx) cands)"
  by (simp add: classify_candidates_def assemble_eq Let_def)

subsection \<open>C3: the adaptive thresholds\<close>















subsection \<open>C8: entries with a short final text are dropped\<close>

text \<open>
  C8: the outline of the classifier consists, in the order of the candidates, of one
  entry for each candidate whose final text (normalised, numbering stripped) has at least
  3 characters, with the level of its score, that final text and its page; a candidate
  whose final text has fewer than 3 characters contributes no entry at all.
\<close>

theorem short_entries_dropped:
  "classify_candidates rx cands =
     map (\<lambda>c. \<lparr>level = level_of (h1_threshold (map cand_score cands))
                          (h2_threshold (map cand_score cands)) (cand_score c),
                entry_text = final_text rx (block_text (cand_block c)),
                entry_page = page (cand_block c)\<rparr>)
       (filter (\<lambda>c. 3 \<le> length (final_text rx (block_text (cand_block c)))) cands)"
proof -
  have keep: "long_enough rx = (\<lambda>c. 3 \<le> length (final_text rx (block_text (cand_block c))))"
    by (simp add: fun_eq_iff long_enough_def HEADING_MIN_CHARS_def)
  have made: "entry_of h1 h2 rx =
      (\<lambda>c. \<lparr>level = level_of h1 h2 (cand_score c),
            entry_text = final_text rx (block_text (cand_block c)),
            entry_page = page (cand_block c)\<rparr>)" for h1 h2
    by (simp add: fun_eq_iff entry_of_def)
  show ?thesis
    using classify_candidates_eq [of rx cands] by (simp only: keep made)
qed

lemma final_text_numbered:
  "final_text (Some numbered_heading) ''12 AB'' = ''AB''"
  "final_text (Some numbered_heading) ''2.1 Introduction'' = ''Introduction''"
  by (simp_all add: final_text_def normalize_text_Cons isalnum_def numbered_heading_def isdigit_def
      strip_groups.simps strip_def isspace_def)

theorem short_entries_dropped_witness:
  "final_text (Some numbered_heading) ''12 AB'' = ''AB'' \<and>
   level_of (h1_threshold (map cand_score cands_short)) (h2_threshold (map cand_score cands_short)) 50 = ''H1'' \<and>
   classify_candidates (Some numbered_heading) cands_short =
     [\<lparr>level = ''H3'', entry_text = ''Introduction'', entry_page = 2\<rparr>]"
  using short_entries_dropped [of "Some numbered_heading" cands_short]
  by (simp add: cands_short_def scored_def final_text_numbered level_of_def h1_threshold_def
      h2_threshold_def np_mean_def)


subsection \<open>Evaluation of the report and of the two single pages\<close>

lemma cluster_font_sizes_report: "cluster_font_sizes blocks_report = (10, 20)"
  by (simp add: cluster_font_sizes_def blocks_report_def text_line_def py_round_def)

lemma strip_report:
  "strip ''ACME Corp'' = ''ACME Corp''" "strip ''Overview'' = ''Overview''"
  "strip ''text one'' = ''text one''" "strip ''Methods: data'' = ''Methods: data''"
  "strip ''text two'' = ''text two''" "strip ''text three'' = ''text three''"
  "strip ''text four'' = ''text four''"
  by (simp_all add: strip_def isspace_def)

lemma text_positions_report:
  "text_positions blocks_report [] =
     [((''ACME Corp'', 2), {1, 2, 3}), ((''Overview'', 6), {1}), ((''text one'', 10), {1}),
      ((''Methods: data'', 6), {2}), ((''text two'', 10), {2}), ((''text three'', 6), {3}),
      ((''text four'', 8), {3})]"
  by (simp add: blocks_report_def text_line_def block_key_def strip_report py_round_def y0_def
      insert_commute)

lemma identify_repeated_elements_report:
  "identify_repeated_elements blocks_report = {(''ACME Corp'', 2)}"
  by (simp add: identify_repeated_elements_def identify_repeated_elements_min_def
      text_positions_report)

lemma not_similar_to_empty: "t \<noteq> [] \<Longrightarrow> \<not> is_similar ratio_exact t []"
  by (simp add: is_similar_def ratio_exact_def lower_def SIMILARITY_THRESHOLD_def)

lemma split_report:
  "length (split ''Overview'') = 1" "length (split ''Methods: data'') = 2"
  by (simp_all add: split_def isspace_def)

lemma score_candidates_report:
  "score_candidates ratio_exact 10 20 blocks_report [] =
     [\<lparr>cand_block = text_line ''Overview'' 20 True 1 60 80, cand_score = 120\<rparr>,
      \<lparr>cand_block = text_line ''Methods: data'' 16 False 2 60 76, cand_score = 115\<rparr>]"
proof -
  have "score_candidates ratio_exact 10 20 blocks_report [] =
      scored_candidates
        (score_loop ratio_exact {(''ACME Corp'', 2)} 10 20 [] 0 blocks_report initial_state)"
    by (simp only: score_candidates_def identify_repeated_elements_report)
  also have "\<dots> =
     [\<lparr>cand_block = text_line ''Overview'' 20 True 1 60 80, cand_score = 120\<rparr>,
      \<lparr>cand_block = text_line ''Methods: data'' 16 False 2 60 76, cand_score = 115\<rparr>]"
    by (simp add: blocks_report_def
      initial_state_def score_step_def basic_filter_def not_similar_to_empty block_key_def
      strip_report text_line_def py_round_def y0_def y1_def line_score_def vertical_gap_def
      split_report W_FONT_SIZE_def W_VERTICAL_GAP_def W_IS_BOLD_def W_TEXT_LENGTH_def)
  finally show ?thesis .
qed

lemma final_text_report:
  "final_text None ''Overview'' = ''Overview''"
  "final_text None ''Methods: data'' = ''Methods: data''"
  by (simp_all add: final_text_def normalize_text_Cons isalnum_def)

lemma classify_headings_report:
  "classify_headings ratio_exact blocks_report [] None =
     [\<lparr>level = ''H1'', entry_text = ''Overview'', entry_page = 1\<rparr>,
      \<lparr>level = ''H2'', entry_text = ''Methods: data'', entry_page = 2\<rparr>]"
  by (simp add: classify_headings_def cluster_font_sizes_report score_candidates_report
      classify_candidates_def h1_threshold_def h2_threshold_def np_mean_def level_of_def
      final_text_report text_line_def HEADING_MIN_CHARS_def)


lemma cluster_font_sizes_overlap: "cluster_font_sizes blocks_overlap = (10, 40)"
  by (simp add: cluster_font_sizes_def blocks_overlap_def text_line_def py_round_def)

lemma strip_overlap:
  "strip ''Heading A'' = ''Heading A''" "strip ''side note'' = ''side note''"
  "strip ''body one'' = ''body one''" "strip ''body two'' = ''body two''"
  "strip ''body text'' = ''body text''" "strip ''Heading'' = ''Heading''"
  "strip ''more text'' = ''more text''"
  by (simp_all add: strip_def isspace_def)

lemma identify_repeated_elements_overlap: "identify_repeated_elements blocks_overlap = {}"
  by (simp add: identify_repeated_elements_def identify_repeated_elements_min_def
      blocks_overlap_def text_line_def block_key_def strip_overlap py_round_def y0_def)

lemma split_overlap:
  "length (split ''Heading A'') = 2" "length (split ''side note'') = 2"
  "length (split ''Heading'') = 1"
  by (simp_all add: split_def isspace_def)

lemma cluster_font_sizes_first_excluded: "cluster_font_sizes blocks_first_excluded = (10, 20)"
  by (simp add: cluster_font_sizes_def blocks_first_excluded_def text_line_def py_round_def)

lemma identify_repeated_elements_first_excluded:
  "identify_repeated_elements blocks_first_excluded = {}"
  by (simp add: identify_repeated_elements_def identify_repeated_elements_min_def
      blocks_first_excluded_def text_line_def block_key_def strip_overlap py_round_def y0_def)

lemma no_overlap_report: "no_overlap blocks_report"
  by (simp add: blocks_report_def text_line_def y0_def y1_def)

lemma tops_report: "\<forall>b \<in> set blocks_report. 0 \<le> y0 (bbox b)"
  by (simp add: blocks_report_def text_line_def y0_def)

text \<open>On these three inputs no line is a title candidate: whatever the document, the
  title that \<open>extract_outline\<close> passes to \<open>classify_headings\<close> is empty.\<close>

lemma title_candidates_short:
  "\<forall>b \<in> set bs. page b \<noteq> 1 \<or> length (block_text b) < TITLE_MIN_CHARS \<Longrightarrow>
   title_candidates w h bs cands = Inr cands"
  by (induction bs) auto

lemma detect_title_short:
  assumes "\<forall>b \<in> set bs. page b \<noteq> 1 \<or> length (block_text b) < TITLE_MIN_CHARS"
  shows "detect_title d bs = Inr []"
  by (simp add: detect_title_def doc_getitem_def page_count_def title_candidates_short [OF assms])

lemma detect_title_report: "detect_title d blocks_report = Inr []"
  by (rule detect_title_short) (simp add: blocks_report_def text_line_def TITLE_MIN_CHARS_def)

lemma detect_title_overlap: "detect_title d blocks_overlap = Inr []"
  by (rule detect_title_short) (simp add: blocks_overlap_def text_line_def TITLE_MIN_CHARS_def)

lemma detect_title_first_excluded: "detect_title d blocks_first_excluded = Inr []"
  by (rule detect_title_short)
    (simp add: blocks_first_excluded_def text_line_def TITLE_MIN_CHARS_def)

subsection \<open>C4: excluded lines and the accumulator\<close>

text \<open>
  C4, as stated, fails for the first line of a document. In \<open>blocks_first_excluded\<close> the
  first line is body text (font size 10, not above the body size 10) with bottom edge 12:
  it is excluded, and the accumulator's bottom edge after it is 0, not 12. The heading
  that follows on the same page at top edge 15 gets the gap 15 and the score 85; with the
  gap measured from the bottom edge of the line before it the score would be 37.
\<close>

theorem first_line_excluded_counterexample:
  "cluster_font_sizes blocks_first_excluded = (10, 20) \<and>
   basic_filter ratio_exact 10 [] (text_line ''body text'' 10 False 1 0 12) \<and>
   y1 (bbox (text_line ''body text'' 10 False 1 0 12)) = 12 \<and>
   last_y1 (score_step ratio_exact (identify_repeated_elements blocks_first_excluded) 10 20 [] 0
              (text_line ''body text'' 10 False 1 0 12) initial_state) = 0 \<and>
   last_y1 (score_step ratio_exact (identify_repeated_elements blocks_first_excluded) 10 20 [] 0
              (text_line ''body text'' 10 False 1 0 12) initial_state)
     \<noteq> y1 (bbox (text_line ''body text'' 10 False 1 0 12)) \<and>
   score_candidates ratio_exact 10 20 blocks_first_excluded [] =
     [\<lparr>cand_block = text_line ''Heading'' 20 False 1 15 35, cand_score = 85\<rparr>] \<and>
   line_score 10 20 \<lparr>last_y1 = 12, last_page = 1, scored_candidates = []\<rparr>
     (text_line ''Heading'' 20 False 1 15 35) = 37"
proof -
  have excluded: "basic_filter ratio_exact 10 [] (text_line ''body text'' 10 False 1 0 12)"
    by (simp add: basic_filter_def text_line_def)
  have bottom: "y1 (bbox (text_line ''body text'' 10 False 1 0 12)) = 12"
    by (simp add: text_line_def y1_def)
  have state: "last_y1 (score_step ratio_exact (identify_repeated_elements blocks_first_excluded)
      10 20 [] 0 (text_line ''body text'' 10 False 1 0 12) initial_state) = 0"
    using excluded by (simp add: score_step_def)
  have "score_candidates ratio_exact 10 20 blocks_first_excluded [] =
      scored_candidates (score_loop ratio_exact {} 10 20 [] 0 blocks_first_excluded initial_state)"
    by (simp only: score_candidates_def identify_repeated_elements_first_excluded)
  also have "\<dots> = [\<lparr>cand_block = text_line ''Heading'' 20 False 1 15 35, cand_score = 85\<rparr>]"
    by (simp add: blocks_first_excluded_def
      initial_state_def score_step_def basic_filter_def not_similar_to_empty
      text_line_def y0_def y1_def line_score_def vertical_gap_def
      split_overlap W_FONT_SIZE_def W_VERTICAL_GAP_def W_IS_BOLD_def W_TEXT_LENGTH_def)
  finally have scored: "score_candidates ratio_exact 10 20 blocks_first_excluded [] =
      [\<lparr>cand_block = text_line ''Heading'' 20 False 1 15 35, cand_score = 85\<rparr>]" .
  have claimed: "line_score 10 20 \<lparr>last_y1 = 12, last_page = 1, scored_candidates = []\<rparr>
     (text_line ''Heading'' 20 False 1 15 35) = 37"
    by (simp add: text_line_def y0_def line_score_def vertical_gap_def
      split_overlap W_FONT_SIZE_def W_VERTICAL_GAP_def W_IS_BOLD_def W_TEXT_LENGTH_def)
  have differ: "last_y1 (score_step ratio_exact (identify_repeated_elements blocks_first_excluded)
      10 20 [] 0 (text_line ''body text'' 10 False 1 0 12) initial_state)
     \<noteq> y1 (bbox (text_line ''body text'' 10 False 1 0 12))"
    by (simp add: state bottom)
  show ?thesis
    using cluster_font_sizes_first_excluded excluded bottom state differ scored claimed
    by blast
qed

text \<open>
  C4, amended: for every line excluded by the scorer's filters the accumulator takes that
  line's page and no candidate is recorded; the accumulator's bottom edge becomes that
  line's \<open>y1\<close>, except for the line at index 0 when it is excluded by the first filter
  (font size, empty text or title similarity), where it becomes 0. The vertical gap of the
  line that follows is measured from this state, and when that line survives the filters
  it is recorded with the score computed from this state.
\<close>

theorem excluded_lines_advance_state:
  assumes "basic_filter ratio body_size ttl b \<or> block_key b \<in> rep"
  shows "last_page (score_step ratio rep body_size phs ttl i b st) = page b \<and>
         scored_candidates (score_step ratio rep body_size phs ttl i b st) = scored_candidates st \<and>
         last_y1 (score_step ratio rep body_size phs ttl i b st) =
           (if i = 0 \<and> basic_filter ratio body_size ttl b then 0 else y1 (bbox b)) \<and>
         vertical_gap body_size (score_step ratio rep body_size phs ttl i b st) b' =
           (if page b' = page b
            then y0 (bbox b') - (if i = 0 \<and> basic_filter ratio body_size ttl b then 0 else y1 (bbox b))
            else of_int body_size * 2) \<and>
         score_loop ratio rep body_size phs ttl i (b # b' # bs) st =
           score_loop ratio rep body_size phs ttl (i + 2) bs
             (score_step ratio rep body_size phs ttl (i + 1) b'
                (score_step ratio rep body_size phs ttl i b st)) \<and>
         (\<not> basic_filter ratio body_size ttl b' \<and> block_key b' \<notin> rep \<longrightarrow>
            scored_candidates (score_step ratio rep body_size phs ttl (i + 1) b'
                (score_step ratio rep body_size phs ttl i b st)) =
              scored_candidates st @
                [\<lparr>cand_block = b',
                  cand_score = line_score body_size phs
                                 (score_step ratio rep body_size phs ttl i b st) b'\<rparr>])"
  using assms by (auto simp: score_step_def vertical_gap_def)

theorem excluded_lines_advance_state_witness:
  "block_key (text_line ''ACME Corp'' 14 False 1 20 34) \<in> identify_repeated_elements blocks_report \<and>
   last_y1 (score_step ratio_exact (identify_repeated_elements blocks_report) 10 20 [] 0
              (text_line ''ACME Corp'' 14 False 1 20 34) initial_state) = 34 \<and>
   last_page (score_step ratio_exact (identify_repeated_elements blocks_report) 10 20 [] 0
              (text_line ''ACME Corp'' 14 False 1 20 34) initial_state) = 1 \<and>
   vertical_gap 10 (score_step ratio_exact (identify_repeated_elements blocks_report) 10 20 [] 0
              (text_line ''ACME Corp'' 14 False 1 20 34) initial_state)
     (text_line ''Overview'' 20 True 1 60 80) = 26 \<and>
   scored_candidates
     (score_step ratio_exact (identify_repeated_elements blocks_report) 10 20 [] 1
        (text_line ''Overview'' 20 True 1 60 80)
        (score_step ratio_exact (identify_repeated_elements blocks_report) 10 20 [] 0
           (text_line ''ACME Corp'' 14 False 1 20 34) initial_state)) =
     [\<lparr>cand_block = text_line ''Overview'' 20 True 1 60 80, cand_score = 120\<rparr>]"
proof -
  have excluded: "block_key (text_line ''ACME Corp'' 14 False 1 20 34)
      \<in> identify_repeated_elements blocks_report"
    by (simp add: identify_repeated_elements_report block_key_def text_line_def strip_report
        py_round_def y0_def)
  have not_basic: "\<not> basic_filter ratio_exact 10 [] (text_line ''ACME Corp'' 14 False 1 20 34)"
    by (simp add: basic_filter_def text_line_def not_similar_to_empty)
  have either: "basic_filter ratio_exact 10 [] (text_line ''ACME Corp'' 14 False 1 20 34) \<or>
      block_key (text_line ''ACME Corp'' 14 False 1 20 34) \<in> identify_repeated_elements blocks_report"
    using excluded by simp
  have survives: "\<not> basic_filter ratio_exact 10 [] (text_line ''Overview'' 20 True 1 60 80)"
      "block_key (text_line ''Overview'' 20 True 1 60 80)
         \<notin> identify_repeated_elements blocks_report"
    by (simp_all add: basic_filter_def text_line_def not_similar_to_empty
        identify_repeated_elements_report block_key_def strip_report)
  note inst = excluded_lines_advance_state [OF either, of 20 0 initial_state
        "text_line ''Overview'' 20 True 1 60 80" "[]"]
  have gap: "vertical_gap 10 (score_step ratio_exact (identify_repeated_elements blocks_report)
      10 20 [] 0 (text_line ''ACME Corp'' 14 False 1 20 34) initial_state)
     (text_line ''Overview'' 20 True 1 60 80) = 26"
    using inst not_basic by (simp add: text_line_def y0_def y1_def)
  have score: "line_score 10 20 (score_step ratio_exact (identify_repeated_elements blocks_report)
      10 20 [] 0 (text_line ''ACME Corp'' 14 False 1 20 34) initial_state)
     (text_line ''Overview'' 20 True 1 60 80) = 120"
    unfolding line_score_def gap
    by (simp add: text_line_def split_report W_FONT_SIZE_def W_VERTICAL_GAP_def W_IS_BOLD_def
        W_TEXT_LENGTH_def)
  show ?thesis
    using excluded not_basic survives inst gap score
    by (simp add: initial_state_def y1_def text_line_def)
qed

subsection \<open>C5: the sign of the scores\<close>

lemma py_round_nonneg: "0 < x \<Longrightarrow> 0 \<le> py_round x"
proof -
  assume "0 < x"
  then have "0 \<le> \<lfloor>x\<rfloor>" by simp
  then show ?thesis by (simp add: py_round_def Let_def)
qed

lemma counter_add_keys: "fst ` set (counter_add k c) = insert k (fst ` set c)"
proof (induction c)
  case Nil
  then show ?case by simp
next
  case (Cons kv c)
  obtain k' n where kv: "kv = (k', n)" by (cases kv)
  show ?case
    using Cons.IH by (cases "k = k'") (simp_all add: kv insert_commute)
qed

lemma counter_keys: "fst ` set (counter ks c) = set ks \<union> fst ` set c"
  by (induction ks arbitrary: c) (auto simp: counter_add_keys)

lemma max_by_from_mem: "max_by_from f best xs \<in> set (best # xs)"
  by (induction xs arbitrary: best) (auto split: if_splits)

lemma cluster_font_sizes_nonneg:
  assumes "cluster_font_sizes blocks = (body_size, primary_heading_size)"
  shows "0 \<le> body_size"
proof -
  define ks where "ks = map py_round (filter (\<lambda>s. s > 0) (map font_size blocks))"
  have nonneg: "\<forall>k \<in> set ks. 0 \<le> k"
    by (auto simp: ks_def py_round_nonneg)
  show ?thesis
  proof (cases "counter ks []")
    case Nil
    with assms show ?thesis by (simp add: cluster_font_sizes_def ks_def)
  next
    case (Cons kv kvs)
    with assms have "body_size = fst (max_by_from snd kv kvs)"
      by (simp add: cluster_font_sizes_def ks_def Let_def)
    moreover have "max_by_from snd kv kvs \<in> set (counter ks [])"
      using max_by_from_mem [of snd kv kvs] Cons by simp
    ultimately have "body_size \<in> fst ` set (counter ks [])" by (simp only: image_eqI)
    then have "body_size \<in> set ks" by (simp add: counter_keys)
    with nonneg show ?thesis by blast
  qed
qed

lemma line_score_nonneg:
  assumes "0 < body_size" "body_size < primary_heading_size"
    and "of_int body_size < font_size b"
    and "0 \<le> vertical_gap body_size st b"
  shows "0 \<le> line_score body_size primary_heading_size st b"
proof -
  have size_term: "0 \<le> (font_size b - of_int body_size)
      / of_int (primary_heading_size - body_size) * W_FONT_SIZE"
    using assms by (simp add: W_FONT_SIZE_def)
  have "0 \<le> vertical_gap body_size st b / of_int body_size"
    using assms by simp
  then have gap_term: "0 \<le> min 2 (vertical_gap body_size st b / of_int body_size) * W_VERTICAL_GAP"
    by (simp add: W_VERTICAL_GAP_def)
  show ?thesis
    using size_term gap_term assms(2)
    by (simp add: line_score_def Let_def W_IS_BOLD_def W_TEXT_LENGTH_def)
qed

lemma score_step_ahead:
  assumes "no_overlap (b # bs)" "\<forall>x \<in> set bs. 0 \<le> y0 (bbox x)"
  shows "ahead (score_step ratio rep body phs ttl i b st) bs"
proof (cases bs)
  case Nil
  then show ?thesis by (simp add: ahead_def)
next
  case (Cons b' bs')
  with assms show ?thesis
    by (auto simp: ahead_def score_step_def)
qed

lemma score_step_nonneg:
  assumes "0 < body" "body < phs" "ahead st (b # bs)"
    and "\<forall>c \<in> set (scored_candidates st). 0 \<le> cand_score c"
  shows "\<forall>c \<in> set (scored_candidates (score_step ratio rep body phs ttl i b st)). 0 \<le> cand_score c"
proof (cases "basic_filter ratio body ttl b \<or> block_key b \<in> rep")
  case True
  with assms(4) show ?thesis by (auto simp: score_step_def)
next
  case False
  then have big: "of_int body < font_size b"
    by (simp add: basic_filter_def)
  have gap: "0 \<le> vertical_gap body st b"
    using assms(1,3) by (simp add: vertical_gap_def ahead_def)
  have "0 \<le> line_score body phs st b"
    using line_score_nonneg [OF assms(1,2) big gap] .
  with False assms(4) show ?thesis by (auto simp: score_step_def)
qed

lemma score_loop_nonneg:
  assumes "0 < body" "body < phs"
  shows "no_overlap bs \<Longrightarrow> \<forall>x \<in> set bs. 0 \<le> y0 (bbox x) \<Longrightarrow> ahead st bs \<Longrightarrow>
    \<forall>c \<in> set (scored_candidates st). 0 \<le> cand_score c \<Longrightarrow>
    \<forall>c \<in> set (scored_candidates (score_loop ratio rep body phs ttl i bs st)). 0 \<le> cand_score c"
proof (induction bs arbitrary: i st)
  case Nil
  then show ?case by simp
next
  case (Cons b bs)
  have rest: "no_overlap bs"
    using Cons.prems(1) by (cases bs) simp_all
  have pos: "\<forall>x \<in> set bs. 0 \<le> y0 (bbox x)"
    using Cons.prems(2) by simp
  have next_ahead: "ahead (score_step ratio rep body phs ttl i b st) bs"
    using score_step_ahead [OF Cons.prems(1) pos] .
  have next_nonneg: "\<forall>c \<in> set (scored_candidates (score_step ratio rep body phs ttl i b st)).
      0 \<le> cand_score c"
    using score_step_nonneg [OF assms Cons.prems(3) Cons.prems(4)] .
  show ?case
    using Cons.IH [OF rest pos next_ahead next_nonneg] by simp
qed

text \<open>
  C5, as stated, fails. In \<open>blocks_overlap\<close> the line \<open>side note\<close> (size 11, top edge 101)
  follows on the same page a line with bottom edge 150: its gap is \<open>-49\<close>, and it is
  recorded as a candidate with the score \<open>-1171/6\<close>.
\<close>

theorem negative_score_counterexample:
  "cluster_font_sizes blocks_overlap = (10, 40) \<and>
   map cand_block (score_candidates ratio_exact 10 40 blocks_overlap []) =
     [text_line ''Heading A'' 40 False 1 100 150, text_line ''side note'' 11 False 1 101 113] \<and>
   map cand_score (score_candidates ratio_exact 10 40 blocks_overlap []) = [105, - (1171 / 6)] \<and>
   \<not> (0::real) \<le> - (1171 / 6)"
proof -
  have "score_candidates ratio_exact 10 40 blocks_overlap [] =
      scored_candidates (score_loop ratio_exact {} 10 40 [] 0 blocks_overlap initial_state)"
    by (simp only: score_candidates_def identify_repeated_elements_overlap)
  also have "\<dots> =
     [\<lparr>cand_block = text_line ''Heading A'' 40 False 1 100 150, cand_score = 105\<rparr>,
      \<lparr>cand_block = text_line ''side note'' 11 False 1 101 113, cand_score = - (1171 / 6)\<rparr>]"
    by (simp add: blocks_overlap_def
      initial_state_def score_step_def basic_filter_def not_similar_to_empty
      text_line_def y0_def y1_def line_score_def vertical_gap_def
      split_overlap W_FONT_SIZE_def W_VERTICAL_GAP_def W_IS_BOLD_def W_TEXT_LENGTH_def)
  finally show ?thesis
    using cluster_font_sizes_overlap by simp
qed

text \<open>
  C5, amended: when the guard of \<open>classify_headings\<close> has passed (the body size is not zero
  and below the primary heading size), no line starts above the bottom edge of the line
  before it on the same page, and no top edge is negative, every candidate recorded by
  the scorer has a score \<open>\<ge> 0\<close>.
\<close>

theorem scores_nonnegative_without_overlap:
  assumes "cluster_font_sizes blocks = (body_size, primary_heading_size)"
    and "body_size \<noteq> 0" and "body_size < primary_heading_size"
    and "no_overlap blocks" and "\<forall>b \<in> set blocks. 0 \<le> y0 (bbox b)"
  shows "\<forall>c \<in> set (score_candidates ratio body_size primary_heading_size blocks ttl).
           0 \<le> cand_score c"
proof -
  have positive: "0 < body_size"
    using cluster_font_sizes_nonneg [OF assms(1)] assms(2) by simp
  have start: "ahead initial_state blocks"
  proof (cases blocks)
    case Nil
    then show ?thesis by (simp add: ahead_def)
  next
    case (Cons b bs)
    then show ?thesis
      using assms(5) by (simp add: ahead_def initial_state_def)
  qed
  have none: "\<forall>c \<in> set (scored_candidates initial_state). 0 \<le> cand_score c"
    by (simp add: initial_state_def)
  show ?thesis
    unfolding score_candidates_def
    using score_loop_nonneg [OF positive assms(3) assms(4) assms(5) start none] .
qed

theorem scores_nonnegative_without_overlap_witness:
  "cluster_font_sizes blocks_report = (10, 20) \<and> no_overlap blocks_report \<and>
   map cand_score (score_candidates ratio_exact 10 20 blocks_report []) = [120, 115] \<and>
   list_all (\<lambda>c. 0 \<le> cand_score c) (score_candidates ratio_exact 10 20 blocks_report [])"
proof -
  have nonzero: "(10::int) \<noteq> 0" and below: "(10::int) < 20"
    by simp_all
  have "\<forall>c \<in> set (score_candidates ratio_exact 10 20 blocks_report []). 0 \<le> cand_score c"
    using scores_nonnegative_without_overlap
      [OF cluster_font_sizes_report nonzero below no_overlap_report tops_report] .
  then have "list_all (\<lambda>c. 0 \<le> cand_score c) (score_candidates ratio_exact 10 20 blocks_report [])"
    by (simp only: list_all_iff)
  then show ?thesis
    using cluster_font_sizes_report no_overlap_report by (simp add: score_candidates_report)
qed

subsection \<open>C6: boilerplate\<close>













subsection \<open>C7: the levels of the entries\<close>

lemma digits_nonempty: "digits n \<noteq> []"
  by (subst digits.simps) simp

lemma digits_single: "n < 10 \<Longrightarrow> digits n = [digit_char n]"
  by (subst digits.simps) simp

lemma digits_long: "\<not> n < 10 \<Longrightarrow> length (digits n) \<ge> 2"
proof -
  assume big: "\<not> n < 10"
  have "digits n = digits (n div 10) @ [digit_char (n mod 10)]"
    using big by (subst digits.simps) simp
  moreover have "length (digits (n div 10)) \<ge> 1"
    using digits_nonempty [of "n div 10"] by (cases "digits (n div 10)") simp_all
  ultimately show ?thesis by simp
qed

lemma small_nat_cases: "n < 10 \<Longrightarrow> n \<in> {0, 1, 2, 3, 4, 5, 6, 7, 8, 9 :: nat}"
  by auto

lemma digits_level: "digits n \<in> {''1'', ''2'', ''3''} \<longleftrightarrow> n \<in> {1, 2, 3}"
proof (cases "n < 10")
  case True
  then show ?thesis
    using small_nat_cases [OF True] by (auto simp: digits_single digit_char_def)
next
  case False
  then have "length (digits n) \<ge> 2" by (rule digits_long)
  then have "digits n \<notin> {''1'', ''2'', ''3''}" by auto
  then show ?thesis using False by auto
qed

lemma str_int_level: "str_int l \<in> {''1'', ''2'', ''3''} \<longleftrightarrow> l \<in> {1, 2, 3}"
proof (cases "l < 0")
  case True
  then show ?thesis by (auto simp: str_int_def)
next
  case False
  then have "str_int l = digits (nat l)" by (simp add: str_int_def)
  moreover have "nat l \<in> {1, 2, 3} \<longleftrightarrow> l \<in> {1, 2, 3}"
    using False by auto
  ultimately show ?thesis using digits_level [of "nat l"] by simp
qed

lemma level_of_range: "level_of h1 h2 s \<in> {''H1'', ''H2'', ''H3''}"
  by (simp add: level_of_def)

lemma classify_candidates_levels:
  "e \<in> set (classify_candidates rx cands) \<Longrightarrow> level e \<in> {''H1'', ''H2'', ''H3''}"
proof -
  assume "e \<in> set (classify_candidates rx cands)"
  then obtain c where "e = entry_of (h1_threshold (map cand_score cands))
      (h2_threshold (map cand_score cands)) rx c"
    by (auto simp: classify_candidates_eq)
  then have "level e = level_of (h1_threshold (map cand_score cands))
      (h2_threshold (map cand_score cands)) (cand_score c)"
    by (simp add: entry_of_def)
  then show ?thesis
    using level_of_range by simp
qed

lemma classify_headings_levels:
  "e \<in> set (classify_headings ratio blocks ttl rx) \<Longrightarrow> level e \<in> {''H1'', ''H2'', ''H3''}"
  using classify_candidates_levels
  by (auto simp: classify_headings_def split: prod.splits if_splits)

text \<open>
  C7, as stated, fails on the embedded path. The document \<open>doc_deep\<close> carries an
  embedded outline with an entry of level 4, and the artifact has an entry of level
  \<open>"H4"\<close>.
\<close>

theorem embedded_level_counterexample:
  "toc doc_deep \<noteq> [] \<and>
   extract_outline ratio_exact (Some doc_deep) None =
     Inr ([Found_embedded_outline],
          Some \<lparr>title = ''Yearly report 2024'',
                outline = [\<lparr>level = ''H1'', entry_text = ''Part'', entry_page = 1\<rparr>,
                           \<lparr>level = ''H4'', entry_text = ''Detail'', entry_page = 9\<rparr>]\<rparr>) \<and>
   ''H4'' \<notin> {''H1'', ''H2'', ''H3''}"
proof -
  have "toc doc_deep = [(1, ''Part'', 1), (4, ''Detail'', 9)]"
    by (simp add: doc_deep_def)
  moreover have "str_int 1 = ''1''" "str_int 4 = ''4''"
    by (simp_all add: str_int_def digits.simps digit_char_def)
  moreover have "strip ''Part'' = ''Part''" "strip ''Detail'' = ''Detail''"
    by (simp_all add: strip_def isspace_def)
  moreover have "extract_text_blocks doc_deep = blocks_plain"
    by (simp add: extract_text_blocks_def doc_deep_def doc_plain_def blocks_plain_def
        line_block_def strip_def isspace_def)
  moreover have "detect_title doc_deep blocks_plain = Inr ''Yearly report 2024''"
    by (simp add: detect_title_def page_count_def doc_getitem_def doc_deep_def doc_plain_def
      blocks_plain_def TITLE_MIN_CHARS_def title_score_def normalize_text_Cons isalnum_def
      x0_def x1_def y0_def)
  ultimately show ?thesis
    by (simp add: extract_outline_def format_embedded_toc_def)
qed

text \<open>
  C7, amended: every entry of an outline built by the heuristic path has the level
  \<open>"H1"\<close>, \<open>"H2"\<close> or \<open>"H3"\<close>. An entry reformatted from an embedded outline has the
  level \<open>"H"\<close> followed by the decimal numeral of the embedded level, so the levels of a
  reformatted outline are all among \<open>"H1"\<close>, \<open>"H2"\<close>, \<open>"H3"\<close> exactly when every
  embedded level is 1, 2 or 3.
\<close>

theorem outline_levels:
  "(\<forall>e \<in> set (classify_headings ratio blocks ttl rx). level e \<in> {''H1'', ''H2'', ''H3''}) \<and>
   map level (format_embedded_toc t) = map (\<lambda>(lvl, ttl, pg). ''H'' @ str_int lvl) t \<and>
   ((\<forall>e \<in> set (format_embedded_toc t). level e \<in> {''H1'', ''H2'', ''H3''}) \<longleftrightarrow>
    (\<forall>(lvl, ttl, pg) \<in> set t. lvl \<in> {1, 2, 3}))"
proof -
  have heuristic: "\<forall>e \<in> set (classify_headings ratio blocks ttl rx). level e \<in> {''H1'', ''H2'', ''H3''}"
    using classify_headings_levels by blast
  have levels: "map level (format_embedded_toc t) = map (\<lambda>(lvl, ttl, pg). ''H'' @ str_int lvl) t"
    by (induction t) (auto simp: format_embedded_toc_def)
  have one: "''H'' @ str_int l \<in> {''H1'', ''H2'', ''H3''} \<longleftrightarrow> l \<in> {1, 2, 3}" for l
    using str_int_level [of l] by simp
  have each: "level (case x of (lvl, ttl, pg) \<Rightarrow>
      \<lparr>level = CHR ''H'' # str_int lvl, entry_text = strip ttl, entry_page = pg\<rparr>)
      = CHR ''H'' # str_int (fst x)" for x :: "int \<times> string \<times> int"
    by (cases x) simp
  have embedded: "(\<forall>e \<in> set (format_embedded_toc t). level e \<in> {''H1'', ''H2'', ''H3''}) \<longleftrightarrow>
    (\<forall>(lvl, ttl, pg) \<in> set t. lvl \<in> {1, 2, 3})"
  proof -
    have "(\<forall>e \<in> set (format_embedded_toc t). level e \<in> {''H1'', ''H2'', ''H3''}) \<longleftrightarrow>
        (\<forall>x \<in> set t. ''H'' @ str_int (fst x) \<in> {''H1'', ''H2'', ''H3''})"
      by (simp add: format_embedded_toc_def each del: insert_iff)
    also have "\<dots> \<longleftrightarrow> (\<forall>x \<in> set t. fst x \<in> {1, 2, 3})"
      by (simp only: one)
    also have "\<dots> \<longleftrightarrow> (\<forall>(lvl, ttl, pg) \<in> set t. lvl \<in> {1, 2, 3})"
      by (auto simp: case_prod_beta)
    finally show ?thesis .
  qed
  show ?thesis
    using heuristic levels embedded by blast
qed

theorem outline_levels_witness:
  "map level (classify_headings ratio_exact blocks_report [] None) = [''H1'', ''H2''] \<and>
   list_all (\<lambda>e. level e \<in> {''H1'', ''H2'', ''H3''})
     (classify_headings ratio_exact blocks_report [] None) \<and>
   map level (format_embedded_toc [(2, ''Scope'', 5), (7, ''Notes'', 6)]) = [''H2'', ''H7'']"
proof -
  note inst = outline_levels [of ratio_exact blocks_report "[]" None
      "[(2, ''Scope'', 5), (7, ''Notes'', 6)]"]
  have "str_int 2 = ''2''" "str_int 7 = ''7''"
    by (simp_all add: str_int_def digits.simps digit_char_def)
  moreover have "\<forall>e \<in> set (classify_headings ratio_exact blocks_report [] None).
      level e \<in> {''H1'', ''H2'', ''H3''}"
    using inst by blast
  then have "list_all (\<lambda>e. level e \<in> {''H1'', ''H2'', ''H3''})
     (classify_headings ratio_exact blocks_report [] None)"
    by (simp only: list_all_iff)
  ultimately show ?thesis
    using inst by (simp add: classify_headings_report)
qed


end
